theory Spec2Isabelle
  imports Complex_Main
begin

section \<open>Data model\<close>

text \<open>
  The radial timeline of \<^verbatim>\<open>Overview.jsx\<close> works on the flat node list \<^verbatim>\<open>data.nodes\<close>.
  Every node carries a discriminant (\<^verbatim>\<open>node["Node Type"]\<close>, compared after
  \<^verbatim>\<open>toLowerCase()\<close>), a numeric id, and optional fields. A field that is absent, or
  that fails \<^verbatim>\<open>Array.isArray\<close>, is \<open>None\<close>.

  Conventions of the embedding:
  \<^item> ids are JavaScript numbers, modelled as \<open>int\<close>; the id \<open>0\<close> is falsy;
  \<^item> \<^verbatim>\<open>release_date\<close> and the \<^verbatim>\<open>year\<close> of an influence event are decimal
    year numerals, identified with their numeric value, so that \<^verbatim>\<open>String\<close> and
    \<^verbatim>\<open>Number\<close> are the identity on them; an absent or non-numeric year is \<open>None\<close>;
  \<^item> JavaScript numbers that are computed (scores, radii, angles) are modelled as
    \<open>real\<close>; a division whose divisor can be zero is written out.
\<close>

datatype node_type = Song | Album | Person | MusicalGroup | RecordLabel | OtherType

record influence_event =
  inf_year :: "int option"
  inf_score :: "real option"

record node =
  nid :: int
  node_type :: node_type
  genre :: "string option"
  release_date :: "int option"
  influencedBy :: "int list option"
  recordedArtwork :: "int list option"
  distributedArtwork :: "int list option"
  contributedTo :: "int list option"
  roles :: "string list option"
  totalInfluence :: "real option"
  influence :: "influence_event list option"

text \<open>The fixed genre vocabulary: \<^verbatim>\<open>GENRE_GROUPS.flatMap(g => g.genres)\<close>.\<close>

definition FLAT_GENRES :: "string list" where
  "FLAT_GENRES =
    [''Acoustic Folk'', ''Avant-Garde Folk'', ''Celtic Folk'', ''Indie Folk'',
     ''Oceanus Folk'', ''Post-Apocalyptic Folk'',
     ''Alternative Rock'', ''Blues Rock'', ''Desert Rock'', ''Indie Rock'',
     ''Jazz Surf Rock'', ''Psychedelic Rock'', ''Southern Gothic Rock'', ''Space Rock'',
     ''Indie Pop'', ''Dream Pop'', ''Synthpop'',
     ''Doom Metal'', ''Speed Metal'', ''Symphonic Metal'',
     ''Americana'', ''Darkwave'', ''Emo/Pop Punk'', ''Lo-Fi Electronica'',
     ''Sea Shanties'', ''Synthwave'']"

definition ARTIST_ROLES :: "string list" where
  "ARTIST_ROLES = [''Composer'', ''Lyricist'', ''Performer'', ''Producer'']"

text \<open>
  The React state of the component. A JavaScript \<^verbatim>\<open>Set\<close> of strings is a set, its
  \<^verbatim>\<open>size\<close> is \<open>card\<close>; a selected id is \<open>None\<close> for \<^verbatim>\<open>null\<close>.
\<close>

record view_state =
  selectedGenres :: "string set"
  influenceGenres :: "string set"
  selectedRoles :: "string set"
  selectedArtistId :: "int option"
  selectedLabelId :: "int option"
  selectedArtworkId :: "int option"

text \<open>\<^verbatim>\<open>if (selectedLabelId)\<close>: \<^verbatim>\<open>null\<close> and the number 0 are falsy.\<close>

definition truthy :: "int option \<Rightarrow> bool" where
  "truthy v = (case v of None \<Rightarrow> False | Some i \<Rightarrow> i \<noteq> 0)"

text \<open>\<^verbatim>\<open>set.has(n.genre)\<close>, where the genre may be absent.\<close>

definition has_genre :: "string set \<Rightarrow> string option \<Rightarrow> bool" where
  "has_genre S g = (case g of None \<Rightarrow> False | Some x \<Rightarrow> x \<in> S)"

text \<open>\<^verbatim>\<open>Array.isArray(a) ? a : []\<close>\<close>

definition arrayOrEmpty :: "'a list option \<Rightarrow> 'a list" where
  "arrayOrEmpty a = (case a of None \<Rightarrow> [] | Some xs \<Rightarrow> xs)"

section \<open>DataIndex\<close>

definition nodes_of :: "node list \<Rightarrow> node list" where
  "nodes_of data = filter (\<lambda>n. node_type n = Song \<or> node_type n = Album) data"

definition people :: "node list \<Rightarrow> node list" where
  "people data = filter (\<lambda>n. node_type n = Person) data"

definition groups :: "node list \<Rightarrow> node list" where
  "groups data = filter (\<lambda>n. node_type n = MusicalGroup) data"

definition recordLabels :: "node list \<Rightarrow> node list" where
  "recordLabels data = filter (\<lambda>n. node_type n = RecordLabel) data"

text \<open>\<^verbatim>\<open>data.nodes.forEach(n => { map[n.id] = n; })\<close>: a later node overwrites an earlier one.\<close>

definition nodeById :: "node list \<Rightarrow> (int \<rightharpoonup> node)" where
  "nodeById data = foldl (\<lambda>m n. m(nid n \<mapsto> n)) Map.empty data"

section \<open>FilterEngine\<close>

definition genreFiltered :: "node list \<Rightarrow> view_state \<Rightarrow> node list" where
  "genreFiltered data st =
     filter (\<lambda>n. card (selectedGenres st) = 0 \<or> has_genre (selectedGenres st) (genre n))
       (nodes_of data)"

definition influenceGenreNodeIds :: "node list \<Rightarrow> view_state \<Rightarrow> int set" where
  "influenceGenreNodeIds data st =
     set (map nid (filter (\<lambda>n. has_genre (influenceGenres st) (genre n)) data))"

definition citesInfluenceGenre :: "node list \<Rightarrow> view_state \<Rightarrow> node \<Rightarrow> bool" where
  "citesInfluenceGenre data st n =
     (case influencedBy n of
        None \<Rightarrow> False
      | Some ids \<Rightarrow> list_ex (\<lambda>i. i \<in> influenceGenreNodeIds data st) ids)"

definition influenceFiltered :: "node list \<Rightarrow> view_state \<Rightarrow> node list" where
  "influenceFiltered data st =
     (if card (influenceGenres st) > 0
      then filter (citesInfluenceGenre data st) (genreFiltered data st)
      else genreFiltered data st)"

definition labelSet :: "node \<Rightarrow> int set" where
  "labelSet label =
     set (arrayOrEmpty (recordedArtwork label) @ arrayOrEmpty (distributedArtwork label))"

definition filteredNodes :: "node list \<Rightarrow> view_state \<Rightarrow> node list" where
  "filteredNodes data st =
     (let filtered = influenceFiltered data st in
      if truthy (selectedLabelId st) then
        (case selectedLabelId st of
           None \<Rightarrow> filtered
         | Some l \<Rightarrow>
            (case nodeById data l of
               None \<Rightarrow> filtered
             | Some label \<Rightarrow> filter (\<lambda>n. nid n \<in> labelSet label) filtered))
      else if truthy (selectedArtistId st) then
        (case selectedArtistId st of
           None \<Rightarrow> filtered
         | Some a \<Rightarrow>
            (case nodeById data a of
               None \<Rightarrow> filtered
             | Some artist \<Rightarrow>
                (case contributedTo artist of
                   None \<Rightarrow> filtered
                 | Some cs \<Rightarrow> filter (\<lambda>n. nid n \<in> set cs) filtered)))
      else filtered)"

definition visibleSongAlbumIds :: "node list \<Rightarrow> view_state \<Rightarrow> int set" where
  "visibleSongAlbumIds data st = set (map nid (filteredNodes data st))"

definition contributesVisible :: "node list \<Rightarrow> view_state \<Rightarrow> node \<Rightarrow> bool" where
  "contributesVisible data st p =
     (case contributedTo p of
        None \<Rightarrow> False
      | Some cs \<Rightarrow> list_ex (\<lambda>i. i \<in> visibleSongAlbumIds data st) cs)"

definition visiblePeople :: "node list \<Rightarrow> view_state \<Rightarrow> node list" where
  "visiblePeople data st = filter (contributesVisible data st) (people data)"

definition visibleGroups :: "node list \<Rightarrow> view_state \<Rightarrow> node list" where
  "visibleGroups data st = filter (contributesVisible data st) (groups data)"

definition holdsSelectedRole :: "view_state \<Rightarrow> node \<Rightarrow> bool" where
  "holdsSelectedRole st p =
     (case roles p of
        None \<Rightarrow> False
      | Some rs \<Rightarrow> list_ex (\<lambda>r. r \<in> selectedRoles st) rs)"

definition artistNodes :: "node list \<Rightarrow> view_state \<Rightarrow> node list" where
  "artistNodes data st =
     filter (holdsSelectedRole st) (visiblePeople data st) @
     filter (holdsSelectedRole st) (visibleGroups data st)"

definition visibleLabels :: "node list \<Rightarrow> view_state \<Rightarrow> node list" where
  "visibleLabels data st =
     filter (\<lambda>l. list_ex (\<lambda>i. i \<in> visibleSongAlbumIds data st)
                   (arrayOrEmpty (recordedArtwork l) @ arrayOrEmpty (distributedArtwork l)))
       (recordLabels data)"

text \<open>The initial state of the hooks.\<close>

definition initial_state :: view_state where
  "initial_state =
     \<lparr> selectedGenres = set FLAT_GENRES, influenceGenres = {},
       selectedRoles = set ARTIST_ROLES,
       selectedArtistId = None, selectedLabelId = None, selectedArtworkId = None \<rparr>"

section \<open>InteractionController\<close>

text \<open>
  The click handlers of \<^verbatim>\<open>draw\<close>, as functions on the state. Each handler reads the
  state of the render it was created in and calls the setters.
\<close>

definition label_click :: "view_state \<Rightarrow> int \<Rightarrow> view_state" where
  "label_click st l =
     st\<lparr> selectedLabelId := (if selectedLabelId st = Some l then None else Some l),
         selectedArtistId := None,
         selectedArtworkId := None \<rparr>"

definition artist_click :: "view_state \<Rightarrow> int \<Rightarrow> view_state" where
  "artist_click st a =
     st\<lparr> selectedArtistId := (if selectedArtistId st = Some a then None else Some a) \<rparr>"

text \<open>Picking an entry of the artist search dropdown.\<close>

definition artist_search_pick :: "view_state \<Rightarrow> int \<Rightarrow> view_state" where
  "artist_search_pick st a = st\<lparr> selectedArtistId := Some a \<rparr>"

definition artwork_click :: "view_state \<Rightarrow> int \<Rightarrow> view_state" where
  "artwork_click st w =
     st\<lparr> selectedArtworkId := (if selectedArtworkId st = Some w then None else Some w) \<rparr>"

definition background_click :: "view_state \<Rightarrow> view_state" where
  "background_click st =
     st\<lparr> selectedArtistId := None, selectedLabelId := None, selectedArtworkId := None \<rparr>"

definition handleSelectAll :: "view_state \<Rightarrow> view_state" where
  "handleSelectAll st =
     (if card (selectedGenres st) = length FLAT_GENRES then st\<lparr> selectedGenres := {} \<rparr>
      else st\<lparr> selectedGenres := set FLAT_GENRES \<rparr>)"

definition handleGenreChange :: "view_state \<Rightarrow> string \<Rightarrow> view_state" where
  "handleGenreChange st g =
     st\<lparr> selectedGenres :=
           (if g \<in> selectedGenres st then selectedGenres st - {g}
            else insert g (selectedGenres st)) \<rparr>"

definition handleInfluenceSelectAll :: "view_state \<Rightarrow> view_state" where
  "handleInfluenceSelectAll st =
     (if card (influenceGenres st) = length FLAT_GENRES then st\<lparr> influenceGenres := {} \<rparr>
      else st\<lparr> influenceGenres := set FLAT_GENRES \<rparr>)"

definition handleInfluenceGenreChange :: "view_state \<Rightarrow> string \<Rightarrow> view_state" where
  "handleInfluenceGenreChange st g =
     st\<lparr> influenceGenres :=
           (if g \<in> influenceGenres st then influenceGenres st - {g}
            else insert g (influenceGenres st)) \<rparr>"

text \<open>
  A label mark exists (and can be clicked) for every visible label; a contributor mark
  exists for every entry of \<^verbatim>\<open>artistNodes\<close> when there is a visible work; the search
  dropdown lists entries of \<^verbatim>\<open>artistNodes\<close>; the genre checkboxes exist for the genres
  of the vocabulary.
\<close>

definition label_clickable :: "node list \<Rightarrow> view_state \<Rightarrow> int \<Rightarrow> bool" where
  "label_clickable data st l = list_ex (\<lambda>n. nid n = l) (visibleLabels data st)"

definition artist_clickable :: "node list \<Rightarrow> view_state \<Rightarrow> int \<Rightarrow> bool" where
  "artist_clickable data st a =
     (filteredNodes data st \<noteq> [] \<and> list_ex (\<lambda>n. nid n = a) (artistNodes data st))"

definition artist_searchable :: "node list \<Rightarrow> view_state \<Rightarrow> int \<Rightarrow> bool" where
  "artist_searchable data st a = list_ex (\<lambda>n. nid n = a) (artistNodes data st)"

definition artwork_clickable :: "node list \<Rightarrow> view_state \<Rightarrow> int \<Rightarrow> bool" where
  "artwork_clickable data st w = list_ex (\<lambda>n. nid n = w) (filteredNodes data st)"

inductive reachable :: "node list \<Rightarrow> view_state \<Rightarrow> bool" for data :: "node list" where
  r_init: "reachable data initial_state"
| r_label: "reachable data st \<Longrightarrow> label_clickable data st l \<Longrightarrow>
     reachable data (label_click st l)"
| r_artist: "reachable data st \<Longrightarrow> artist_clickable data st a \<Longrightarrow>
     reachable data (artist_click st a)"
| r_search: "reachable data st \<Longrightarrow> artist_searchable data st a \<Longrightarrow>
     reachable data (artist_search_pick st a)"
| r_artwork: "reachable data st \<Longrightarrow> artwork_clickable data st w \<Longrightarrow>
     reachable data (artwork_click st w)"
| r_background: "reachable data st \<Longrightarrow> reachable data (background_click st)"
| r_genre_all: "reachable data st \<Longrightarrow> reachable data (handleSelectAll st)"
| r_genre: "reachable data st \<Longrightarrow> g \<in> set FLAT_GENRES \<Longrightarrow>
     reachable data (handleGenreChange st g)"
| r_influence_all: "reachable data st \<Longrightarrow> reachable data (handleInfluenceSelectAll st)"
| r_influence: "reachable data st \<Longrightarrow> g \<in> set FLAT_GENRES \<Longrightarrow>
     reachable data (handleInfluenceGenreChange st g)"

section \<open>Temporal scale and per-year glyphs\<close>

text \<open>
  \<^verbatim>\<open>years\<close>: the distinct release dates of the works, sorted numerically;
  \<^verbatim>\<open>arcYears = years.map(String)\<close> is the same list under the conventions above.
\<close>

definition years :: "node list \<Rightarrow> int list" where
  "years data = sort (remdups (List.map_filter release_date (nodes_of data)))"

definition arcYears :: "node list \<Rightarrow> int list" where
  "arcYears data = years data"

text \<open>
  Modelled from the spec: \<^verbatim>\<open>d3.scalePoint\<close> (library d3-scale, not under src/), the
  ``ordinal point scale'' that maps the domain ``onto a fixed angular arc'': the distinct
  domain values, in order of first occurrence, are placed at equal steps, the first at
  the start of the range and the last at its end; a single value is placed at the middle
  of the range; a value outside the domain has no position. The range is ascending at
  every call site.
\<close>

fun indexOf :: "'a list \<Rightarrow> 'a \<Rightarrow> nat option" where
  "indexOf [] x = None"
| "indexOf (y # ys) x = (if x = y then Some 0 else map_option Suc (indexOf ys x))"

definition scalePoint :: "'a list \<Rightarrow> real \<Rightarrow> real \<Rightarrow> 'a \<Rightarrow> real option" where
  "scalePoint domain r0 r1 x =
     (let d = rev (remdups (rev domain));
          n = int (length d);
          step = (r1 - r0) / real_of_int (max 1 (n - 1));
          start = r0 + (r1 - r0 - step * real_of_int (n - 1)) * (1 / 2)
      in map_option (\<lambda>i. start + step * real i) (indexOf d x))"

definition arcStart :: real where
  "arcStart = - pi / 4"

definition arcEnd :: real where
  "arcEnd = pi / 4"

definition angleScale :: "node list \<Rightarrow> int \<Rightarrow> real option" where
  "angleScale data y = scalePoint (arcYears data) arcStart arcEnd y"

text \<open>The pie glyph block of \<^verbatim>\<open>draw\<close>: its guard, and the years that get a pie.\<close>

definition pieEnabled :: "view_state \<Rightarrow> bool" where
  "pieEnabled st = (card (influenceGenres st) = length FLAT_GENRES)"

definition yearData :: "node list \<Rightarrow> view_state \<Rightarrow> int \<Rightarrow> node list" where
  "yearData data st year = filter (\<lambda>d. release_date d = Some year) (filteredNodes data st)"

definition pieYears :: "node list \<Rightarrow> view_state \<Rightarrow> int list" where
  "pieYears data st =
     (if pieEnabled st then filter (\<lambda>y. length (yearData data st y) \<noteq> 0) (arcYears data)
      else [])"

section \<open>Contributor bands\<close>

text \<open>
  \<^verbatim>\<open>typeof node.totalInfluence === 'number' ? node.totalInfluence : 0\<close>, and
  \<^verbatim>\<open>getBandIdx\<close>. \<^verbatim>\<open>Math.log10\<close> of a negative number is NaN, which is \<open>None\<close> here.
\<close>

definition influenceScore :: "node \<Rightarrow> real" where
  "influenceScore n = (case totalInfluence n of None \<Rightarrow> 0 | Some v \<Rightarrow> v)"

definition getBandIdx :: "real \<Rightarrow> int option" where
  "getBandIdx infl =
     (if infl = 0 then Some 0
      else if infl < 0 then None
      else Some (1 + \<lfloor>log 10 infl\<rfloor>))"

section \<open>A small dataset\<close>

definition blank_node :: node where
  "blank_node =
     \<lparr> nid = 0, node_type = OtherType, genre = None, release_date = None,
       influencedBy = None, recordedArtwork = None, distributedArtwork = None,
       contributedTo = None, roles = None, totalInfluence = None, influence = None \<rparr>"

definition ex_work1 :: node where
  "ex_work1 = blank_node\<lparr> nid := 1, node_type := Song, genre := Some ''Americana'',
     release_date := Some 2000 \<rparr>"

definition ex_work2 :: node where
  "ex_work2 = blank_node\<lparr> nid := 4, node_type := Album, genre := Some ''Darkwave'',
     release_date := Some 2005, influencedBy := Some [1] \<rparr>"

definition ex_person :: node where
  "ex_person = blank_node\<lparr> nid := 2, node_type := Person, contributedTo := Some [1],
     roles := Some [''Performer''], totalInfluence := Some 5 \<rparr>"

definition ex_label :: node where
  "ex_label = blank_node\<lparr> nid := 3, node_type := RecordLabel,
     recordedArtwork := Some [1], distributedArtwork := Some [4] \<rparr>"

definition ex_data :: "node list" where
  "ex_data = [ex_work1, ex_person, ex_label, ex_work2]"



section \<open>Influence ribbon\<close>

text \<open>
  The tail of the selected contributor. \<^verbatim>\<open>yearsContributed\<close> holds one entry for every
  id of \<^verbatim>\<open>node.contributedTo\<close> that resolves in \<^verbatim>\<open>nodeById\<close>; the entry of a work
  without release date is NaN in the source and \<open>None\<close> here. The list is then
  sorted numerically; \<open>yearsContributed\<close> is that sorted list when every entry is a
  number, and \<open>None\<close> otherwise.
\<close>

definition contributedYears :: "node list \<Rightarrow> node \<Rightarrow> int option list" where
  "contributedYears data node =
     map release_date (List.map_filter (nodeById data) (arrayOrEmpty (contributedTo node)))"

definition yearsContributed :: "node list \<Rightarrow> node \<Rightarrow> int list option" where
  "yearsContributed data node =
     (if list_all (\<lambda>y. y \<noteq> None) (contributedYears data node)
      then Some (sort (List.map_filter id (contributedYears data node)))
      else None)"

text \<open>\<^verbatim>\<open>inf.score || 0\<close>\<close>

definition score_or0 :: "influence_event \<Rightarrow> real" where
  "score_or0 e = (case inf_score e of None \<Rightarrow> 0 | Some v \<Rightarrow> v)"

definition unknownInfluence :: "influence_event list \<Rightarrow> real" where
  "unknownInfluence infl =
     foldl (\<lambda>s e. s + score_or0 e) 0 (filter (\<lambda>e. inf_year e = None) infl)"

text \<open>
  The events with a numeric year, followed, when there is influence of unknown year, by
  one event per entry of \<^verbatim>\<open>yearsContributed\<close> carrying an equal share of it.
\<close>

definition cleanInfluenceArray :: "influence_event list \<Rightarrow> int list \<Rightarrow> influence_event list" where
  "cleanInfluenceArray infl yrs =
     filter (\<lambda>e. inf_year e \<noteq> None) infl @
     (if unknownInfluence infl > 0 \<and> length yrs > 0
      then map (\<lambda>y. \<lparr> inf_year = Some y,
                      inf_score = Some (unknownInfluence infl / real (length yrs)) \<rparr>) yrs
      else [])"

definition yearsList :: "influence_event list \<Rightarrow> int list \<Rightarrow> int list" where
  "yearsList clean yrs = sort (remdups (yrs @ List.map_filter inf_year clean))"

text \<open>
  \<^verbatim>\<open>cumulativeByKnownYear\<close>: the \<^verbatim>\<open>forEach\<close> over \<^verbatim>\<open>yearsList\<close> with its running sum;
  a year gets an entry when at least one event carries it.
\<close>

fun cumulativeByKnownYear ::
  "influence_event list \<Rightarrow> int list \<Rightarrow> real \<Rightarrow> (int \<rightharpoonup> real) \<Rightarrow> (int \<rightharpoonup> real)" where
  "cumulativeByKnownYear clean [] runningSum m = m"
| "cumulativeByKnownYear clean (year # rest) runningSum m =
     (let yearInfluences = filter (\<lambda>e. inf_year e = Some year) clean in
      if length yearInfluences > 0 then
        (let yearScore = foldl (\<lambda>s e. s + score_or0 e) 0 yearInfluences;
             runningSum' = runningSum + yearScore
         in cumulativeByKnownYear clean rest runningSum' (m(year \<mapsto> runningSum')))
      else cumulativeByKnownYear clean rest runningSum m)"

text \<open>
  The inner \<^verbatim>\<open>for (let j = i + 1; ...)\<close> loop that looks for the next known year:
  it returns the new \<^verbatim>\<open>nextKnownIdx\<close> and \<^verbatim>\<open>nextKnownValue\<close>; when no known year
  follows, the index is \<open>-1\<close> and the value keeps what it held.
\<close>

fun findNextKnown :: "('k \<rightharpoonup> real) \<Rightarrow> 'k list \<Rightarrow> int \<Rightarrow> real \<Rightarrow> int \<times> real" where
  "findNextKnown cbk [] j nextKnownValue = (-1, nextKnownValue)"
| "findNextKnown cbk (year # rest) j nextKnownValue =
     (case cbk year of
        Some c \<Rightarrow> (j, c)
      | None \<Rightarrow> findNextKnown cbk rest (j + 1) nextKnownValue)"

text \<open>The four-way choice of the value of a year without events.\<close>

definition interpolated :: "int \<Rightarrow> int \<Rightarrow> real \<Rightarrow> int \<Rightarrow> real \<Rightarrow> real" where
  "interpolated i lastKnownIdx lastKnownValue nextKnownIdx nextKnownValue =
     (if lastKnownIdx = -1 \<and> nextKnownIdx \<noteq> -1 then nextKnownValue
      else if lastKnownIdx \<noteq> -1 \<and> nextKnownIdx = -1 then lastKnownValue
      else if lastKnownIdx \<noteq> -1 \<and> nextKnownIdx \<noteq> -1 then
        lastKnownValue +
          (real_of_int (i - lastKnownIdx) / real_of_int (nextKnownIdx - lastKnownIdx)) *
            (nextKnownValue - lastKnownValue)
      else 0)"

text \<open>
  The main loop \<^verbatim>\<open>for (let i = 0; i < yearsList.length; ++i)\<close>, on the years from
  index \<open>i\<close> on, with the loop variables \<^verbatim>\<open>lastKnownIdx\<close>, \<^verbatim>\<open>lastKnownValue\<close>,
  \<^verbatim>\<open>nextKnownIdx\<close>, \<^verbatim>\<open>nextKnownValue\<close>. The result lists \<^verbatim>\<open>influenceByYear[year]\<close>
  in the order of \<^verbatim>\<open>yearsList\<close>, whose years are distinct.
\<close>

fun fillInfluence ::
  "('k \<rightharpoonup> real) \<Rightarrow> 'k list \<Rightarrow> int \<Rightarrow> int \<Rightarrow> real \<Rightarrow> int \<Rightarrow> real \<Rightarrow> real list" where
  "fillInfluence cbk [] i li lv ni nv = []"
| "fillInfluence cbk (year # rest) i li lv ni nv =
     (case cbk year of
        Some c \<Rightarrow> c # fillInfluence cbk rest (i + 1) i c ni nv
      | None \<Rightarrow>
          (let (ni', nv') = (if ni \<le> i then findNextKnown cbk rest (i + 1) nv else (ni, nv))
           in interpolated i li lv ni' nv' # fillInfluence cbk rest (i + 1) li lv ni' nv'))"

definition influenceByYear :: "influence_event list \<Rightarrow> int list \<Rightarrow> real list" where
  "influenceByYear infl yrs =
     (let clean = cleanInfluenceArray infl yrs;
          yl = yearsList clean yrs;
          cbk = cumulativeByKnownYear clean yl 0 Map.empty
      in fillInfluence cbk yl 0 (-1) 0 (-1) 0)"


text \<open>The scenario of three dated works of one contributor and one influence event.\<close>

definition sc_work :: "int \<Rightarrow> int \<Rightarrow> node" where
  "sc_work i y = blank_node\<lparr> nid := i, node_type := Song, genre := Some ''Indie Folk'',
     release_date := Some y \<rparr>"

definition sc_contributor :: node where
  "sc_contributor = blank_node\<lparr> nid := 10, node_type := Person,
     contributedTo := Some [1, 2, 3], roles := Some [''Performer''],
     totalInfluence := Some 5,
     influence := Some [\<lparr> inf_year = Some 2005, inf_score = Some 5 \<rparr>] \<rparr>"

definition sc_data :: "node list" where
  "sc_data = [sc_work 1 2000, sc_work 2 2005, sc_work 3 2010, sc_contributor]"

section \<open>Ribbon outline\<close>













text \<open>
  The same computation for any contributor, undated works included. The list
  \<^verbatim>\<open>yearsContributed\<close> holds a NaN for every contributed work without release date, and
  \<^verbatim>\<open>String\<close> turns it into the year string \<^verbatim>\<open>"NaN"\<close>, which is one more key of
  \<^verbatim>\<open>yearsList\<close>, \<^verbatim>\<open>cumulativeByKnownYear\<close> and \<^verbatim>\<open>influenceByYear\<close>. A year key is an
  \<open>int option\<close>: \<open>Some y\<close> for the numeral of the year \<open>y\<close> and \<open>None\<close> for \<^verbatim>\<open>"NaN"\<close>.

  Both \<^verbatim>\<open>sort\<close> calls compare by numeric difference, which is NaN against a NaN: the
  comparator is then not consistent and the language leaves the resulting order to the
  engine. The engine's sort is therefore a parameter \<open>srt\<close> of the definitions; on
  numbers alone it is the numeric sort.
\<close>

definition yearsContributedNaN ::
  "(int option list \<Rightarrow> int option list) \<Rightarrow> node list \<Rightarrow> node \<Rightarrow> int option list" where
  "yearsContributedNaN srt data node = srt (contributedYears data node)"

text \<open>
  \<^verbatim>\<open>cleanInfluenceArray\<close> on year keys. The events of an unknown or non-numeric year
  are taken out first, so a \<open>None\<close> in the result is the key \<^verbatim>\<open>"NaN"\<close> of a share
  pushed for an undated work.
\<close>

definition cleanInfluenceArrayNaN ::
  "influence_event list \<Rightarrow> int option list \<Rightarrow> influence_event list" where
  "cleanInfluenceArrayNaN infl ycs =
     filter (\<lambda>e. inf_year e \<noteq> None) infl @
     (if unknownInfluence infl > 0 \<and> length ycs > 0
      then map (\<lambda>y. \<lparr> inf_year = y,
                      inf_score = Some (unknownInfluence infl / real (length ycs)) \<rparr>) ycs
      else [])"

text \<open>The keys of the \<^verbatim>\<open>Set\<close> in insertion order, then sorted.\<close>

definition yearsListNaN ::
  "(int option list \<Rightarrow> int option list) \<Rightarrow> influence_event list \<Rightarrow> int option list \<Rightarrow>
     int option list" where
  "yearsListNaN srt clean ycs = srt (rev (remdups (rev (ycs @ map inf_year clean))))"

fun cumulativeByKnownKey ::
  "influence_event list \<Rightarrow> int option list \<Rightarrow> real \<Rightarrow> (int option \<rightharpoonup> real) \<Rightarrow>
     (int option \<rightharpoonup> real)" where
  "cumulativeByKnownKey clean [] runningSum m = m"
| "cumulativeByKnownKey clean (year # rest) runningSum m =
     (let yearInfluences = filter (\<lambda>e. inf_year e = year) clean in
      if length yearInfluences > 0 then
        (let yearScore = foldl (\<lambda>s e. s + score_or0 e) 0 yearInfluences;
             runningSum' = runningSum + yearScore
         in cumulativeByKnownKey clean rest runningSum' (m(year \<mapsto> runningSum')))
      else cumulativeByKnownKey clean rest runningSum m)"

definition influenceByYearNaN ::
  "(int option list \<Rightarrow> int option list) \<Rightarrow> influence_event list \<Rightarrow> int option list \<Rightarrow>
     real list" where
  "influenceByYearNaN srt infl ycs =
     (let clean = cleanInfluenceArrayNaN infl ycs;
          yl = yearsListNaN srt clean ycs;
          cbk = cumulativeByKnownKey clean yl 0 Map.empty
      in fillInfluence cbk yl 0 (-1) 0 (-1) 0)"





text \<open>
  A sort that orders the numbers and puts every NaN behind them, as an instance of
  \<open>srt\<close>.
\<close>

definition numbersThenNaN :: "int option list \<Rightarrow> int option list" where
  "numbersThenNaN xs = map Some (sort (List.map_filter id xs)) @ filter (\<lambda>x. x = None) xs"

text \<open>
  Contributors for the tails: one with a dated and an undated work, one with two works
  of the same year and an influence event of a later year, one with the same two works
  and no influence event, and one of whose two contributed ids only one is in the data.
\<close>

definition rib_undated_work :: node where
  "rib_undated_work = blank_node\<lparr> nid := 4, node_type := Song, genre := Some ''Indie Folk'' \<rparr>"

definition rib_undated_contributor :: node where
  "rib_undated_contributor = blank_node\<lparr> nid := 11, node_type := Person,
     contributedTo := Some [1, 4], roles := Some [''Performer''] \<rparr>"

definition rib_same_year_contributor :: node where
  "rib_same_year_contributor = blank_node\<lparr> nid := 12, node_type := Person,
     contributedTo := Some [1, 5], roles := Some [''Performer''],
     influence := Some [\<lparr> inf_year = Some 2005, inf_score = Some 5 \<rparr>] \<rparr>"

definition rib_one_year_contributor :: node where
  "rib_one_year_contributor = blank_node\<lparr> nid := 13, node_type := Person,
     contributedTo := Some [1, 5], roles := Some [''Performer''] \<rparr>"

definition rib_one_work_contributor :: node where
  "rib_one_work_contributor = blank_node\<lparr> nid := 14, node_type := Person,
     contributedTo := Some [1, 99], roles := Some [''Performer''] \<rparr>"

definition rib_data :: "node list" where
  "rib_data =
     [sc_work 1 2000, sc_work 2 2005, sc_work 3 2010, rib_undated_work, sc_work 5 2000,
      sc_contributor, rib_undated_contributor, rib_same_year_contributor,
      rib_one_year_contributor, rib_one_work_contributor]"


section \<open>View-fit transform\<close>





















section \<open>Properties of the FilterEngine\<close>

lemma genreFiltered_empty:
  "selectedGenres st = {} \<Longrightarrow> genreFiltered data st = nodes_of data"
  by (simp add: genreFiltered_def)

lemma genreFiltered_full:
  assumes "\<forall>n \<in> set (nodes_of data). \<exists>g. genre n = Some g \<and> g \<in> set FLAT_GENRES"
    and "selectedGenres st = set FLAT_GENRES"
  shows "genreFiltered data st = nodes_of data"
proof -
  have "\<forall>n \<in> set (nodes_of data). has_genre (selectedGenres st) (genre n)"
    using assms by (auto simp: has_genre_def)
  then show ?thesis
    unfolding genreFiltered_def by (simp add: filter_id_conv)
qed

lemma filteredNodes_cong:
  assumes "genreFiltered data st = genreFiltered data st'"
    and "influenceGenres st = influenceGenres st'"
    and "selectedLabelId st = selectedLabelId st'"
    and "selectedArtistId st = selectedArtistId st'"
  shows "filteredNodes data st = filteredNodes data st'"
proof -
  have "influenceGenreNodeIds data st = influenceGenreNodeIds data st'"
    using assms by (simp add: influenceGenreNodeIds_def)
  then have "citesInfluenceGenre data st = citesInfluenceGenre data st'"
    by (simp add: citesInfluenceGenre_def fun_eq_iff split: option.splits)
  then have h: "influenceFiltered data st = influenceFiltered data st'"
    using assms by (simp add: influenceFiltered_def)
  show ?thesis
    unfolding filteredNodes_def h assms(3) assms(4) by (rule refl)
qed

lemma filteredNodes_unfiltered:
  assumes "influenceGenres st = {}" and "\<not> truthy (selectedLabelId st)"
    and "\<not> truthy (selectedArtistId st)"
  shows "filteredNodes data st = genreFiltered data st"
  using assms by (simp add: filteredNodes_def influenceFiltered_def)

section \<open>The small dataset, evaluated\<close>

lemmas ex_defs = ex_data_def ex_work1_def ex_work2_def ex_person_def ex_label_def blank_node_def

lemma distinct_FLAT_GENRES: "distinct FLAT_GENRES" by (simp add: FLAT_GENRES_def)


lemma nodes_of_ex_data: "nodes_of ex_data = [ex_work1, ex_work2]"
  by (simp add: nodes_of_def ex_defs)

lemma ex_genres_in_vocabulary:
  "\<forall>n \<in> set (nodes_of ex_data). \<exists>g. genre n = Some g \<and> g \<in> set FLAT_GENRES"
  by (simp add: nodes_of_ex_data) (simp add: ex_defs FLAT_GENRES_def)

lemma nodeById_ex_data:
  "nodeById ex_data 3 = Some ex_label" "nodeById ex_data 2 = Some ex_person"
  by (simp_all add: nodeById_def ex_defs)

lemma genreFiltered_ex_full:
  "selectedGenres st = set FLAT_GENRES \<Longrightarrow> genreFiltered ex_data st = [ex_work1, ex_work2]"
  using genreFiltered_full [OF ex_genres_in_vocabulary] by (simp add: nodes_of_ex_data)

lemma filteredNodes_ex_initial:
  "filteredNodes ex_data initial_state = [ex_work1, ex_work2]"
  by (simp add: filteredNodes_unfiltered genreFiltered_ex_full initial_state_def truthy_def)

lemma ex_label_set: "labelSet ex_label = {1, 4}"
  by (auto simp add: labelSet_def arrayOrEmpty_def ex_defs)

lemma filteredNodes_ex_label:
  "filteredNodes ex_data (label_click initial_state 3) = [ex_work1, ex_work2]"
proof -
  have "influenceFiltered ex_data (label_click initial_state 3) = [ex_work1, ex_work2]"
    by (simp add: influenceFiltered_def genreFiltered_ex_full label_click_def initial_state_def)
  then show ?thesis
    by (simp add: filteredNodes_def label_click_def initial_state_def truthy_def
        nodeById_ex_data ex_label_set)
      (simp add: ex_defs)
qed

lemma ex_fields:
  "nid ex_work1 = 1" "nid ex_work2 = 4" "nid ex_person = 2" "nid ex_label = 3"
  "contributedTo ex_person = Some [1]" "roles ex_person = Some [''Performer'']"
  "recordedArtwork ex_label = Some [1]" "distributedArtwork ex_label = Some [4]"
  "release_date ex_work1 = Some 2000" "release_date ex_work2 = Some 2005"
  "influencedBy ex_work1 = None" "influencedBy ex_work2 = Some [1]"
  "genre ex_work1 = Some ''Americana''" "genre ex_work2 = Some ''Darkwave''"
  by (simp_all add: ex_defs)

lemma partitions_ex_data:
  "people ex_data = [ex_person]" "groups ex_data = []" "recordLabels ex_data = [ex_label]"
  by (simp_all add: people_def groups_def recordLabels_def ex_defs)

lemma visible_ids_ex:
  "filteredNodes ex_data st = [ex_work1, ex_work2] \<Longrightarrow> visibleSongAlbumIds ex_data st = {1, 4}"
  by (simp add: visibleSongAlbumIds_def) (simp add: ex_defs)

section \<open>Claims about the FilterEngine\<close>

text \<open>
  C1. If every work has a genre of the fixed vocabulary, the full genre selection and
  the empty genre selection give the same visible works, whatever the rest of the state
  is; and with no influence-genre, label or contributor restriction both give all works.
\<close>

theorem genre_selection_full_equals_empty:
  assumes "\<forall>n \<in> set (nodes_of data). \<exists>g. genre n = Some g \<and> g \<in> set FLAT_GENRES"
  shows "filteredNodes data (st\<lparr>selectedGenres := set FLAT_GENRES\<rparr>) =
           filteredNodes data (st\<lparr>selectedGenres := {}\<rparr>)
         \<and> (influenceGenres st = {} \<and> \<not> truthy (selectedLabelId st) \<and>
              \<not> truthy (selectedArtistId st) \<longrightarrow>
            filteredNodes data (st\<lparr>selectedGenres := set FLAT_GENRES\<rparr>) = nodes_of data \<and>
            filteredNodes data (st\<lparr>selectedGenres := {}\<rparr>) = nodes_of data)"
proof -
  let ?full = "st\<lparr>selectedGenres := set FLAT_GENRES\<rparr>"
  let ?none = "st\<lparr>selectedGenres := {}\<rparr>"
  have full: "genreFiltered data ?full = nodes_of data"
    using assms by (intro genreFiltered_full) simp_all
  have none: "genreFiltered data ?none = nodes_of data"
    by (intro genreFiltered_empty) simp
  have same: "filteredNodes data ?full = filteredNodes data ?none"
    by (rule filteredNodes_cong) (simp_all add: full none)
  have all: "filteredNodes data ?none = nodes_of data"
    if "influenceGenres st = {}" "\<not> truthy (selectedLabelId st)"
      "\<not> truthy (selectedArtistId st)"
    using that none filteredNodes_unfiltered [of ?none data] by simp
  show ?thesis using same all by simp
qed

theorem genre_selection_full_equals_empty_witness:
  "nodes_of ex_data = [ex_work1, ex_work2] \<and>
   genre ex_work1 = Some ''Americana'' \<and> genre ex_work2 = Some ''Darkwave'' \<and>
   filteredNodes ex_data (initial_state\<lparr>selectedGenres := set FLAT_GENRES\<rparr>) =
     filteredNodes ex_data (initial_state\<lparr>selectedGenres := {}\<rparr>) \<and>
   filteredNodes ex_data (initial_state\<lparr>selectedGenres := set FLAT_GENRES\<rparr>) =
     [ex_work1, ex_work2] \<and>
   filteredNodes ex_data (initial_state\<lparr>selectedGenres := {}\<rparr>) = [ex_work1, ex_work2]"
proof -
  have st: "influenceGenres initial_state = {}" "\<not> truthy (selectedLabelId initial_state)"
    "\<not> truthy (selectedArtistId initial_state)"
    by (simp_all add: initial_state_def truthy_def)
  show ?thesis
    using genre_selection_full_equals_empty [OF ex_genres_in_vocabulary, of initial_state]
      st
    by (simp add: nodes_of_ex_data ex_fields)
qed




section \<open>Claims about the InteractionController\<close>

text \<open>
  C2 (as amended). A label click sets the label selection (or clears it, when that
  label was the selected one) and clears the contributor selection and the artwork
  selection. A contributor click sets or clears the contributor selection, a pick in the
  search dropdown sets it, and both leave the label selection and the artwork selection
  as they are. A background click clears the contributor, label and artwork selections.
\<close>

theorem selection_transitions:
  "selectedLabelId (label_click st l) =
     (if selectedLabelId st = Some l then None else Some l) \<and>
   selectedArtistId (label_click st l) = None \<and>
   selectedArtworkId (label_click st l) = None \<and>
   selectedArtistId (artist_click st a) =
     (if selectedArtistId st = Some a then None else Some a) \<and>
   selectedLabelId (artist_click st a) = selectedLabelId st \<and>
   selectedArtworkId (artist_click st a) = selectedArtworkId st \<and>
   selectedArtistId (artist_search_pick st a) = Some a \<and>
   selectedLabelId (artist_search_pick st a) = selectedLabelId st \<and>
   selectedArtworkId (artist_search_pick st a) = selectedArtworkId st \<and>
   selectedArtistId (background_click st) = None \<and>
   selectedLabelId (background_click st) = None \<and>
   selectedArtworkId (background_click st) = None"
  by (simp add: label_click_def artist_click_def artist_search_pick_def background_click_def)

text \<open>
  C2 as stated fails: from the initial state, clicking label 3 and then contributor 2
  (both marks are on screen) reaches a state where both selections are set.
\<close>

theorem both_selected_counterexample:
  "reachable ex_data (artist_click (label_click initial_state 3) 2) \<and>
   selectedArtistId (artist_click (label_click initial_state 3) 2) = Some 2 \<and>
   selectedLabelId (artist_click (label_click initial_state 3) 2) = Some 3"
proof -
  have l: "label_clickable ex_data initial_state 3"
    by (simp add: label_clickable_def visibleLabels_def partitions_ex_data
        visible_ids_ex [OF filteredNodes_ex_initial] ex_fields arrayOrEmpty_def)
  have sr: "selectedRoles (label_click initial_state 3) = set ARTIST_ROLES"
    by (simp add: label_click_def initial_state_def)
  have a: "artist_clickable ex_data (label_click initial_state 3) 2"
    by (simp add: artist_clickable_def artistNodes_def visiblePeople_def visibleGroups_def
        contributesVisible_def holdsSelectedRole_def partitions_ex_data
        filteredNodes_ex_label visible_ids_ex [OF filteredNodes_ex_label] ex_fields
        sr ARTIST_ROLES_def)
  have "reachable ex_data (artist_click (label_click initial_state 3) 2)"
    by (intro r_artist r_label r_init l a)
  then show ?thesis
    by (simp add: artist_click_def label_click_def initial_state_def)
qed

section \<open>Claims about the temporal scale and the bands\<close>

lemma distinct_first_occurrences: "distinct xs \<Longrightarrow> rev (remdups (rev xs)) = xs"
  by (simp add: distinct_remdups_id)

lemma indexOf_member: "x \<in> set xs \<Longrightarrow> \<exists>i. indexOf xs x = Some i"
  by (induction xs) auto

lemma indexOf_mono:
  "sorted xs \<Longrightarrow> distinct xs \<Longrightarrow> a \<in> set xs \<Longrightarrow> b \<in> set xs \<Longrightarrow> a < b \<Longrightarrow>
     \<exists>i j. indexOf xs a = Some i \<and> indexOf xs b = Some j \<and> i < j"
proof (induction xs)
  case Nil
  then show ?case by simp
next
  case (Cons x xs)
  show ?case
  proof (cases "a = x")
    case True
    then have "b \<in> set xs" using Cons.prems by auto
    then obtain j where "indexOf xs b = Some j" using indexOf_member by fastforce
    then show ?thesis using True Cons.prems by auto
  next
    case False
    then have a: "a \<in> set xs" using Cons.prems by auto
    then have "x \<le> a" using Cons.prems by auto
    then have "b \<noteq> x" using Cons.prems by auto
    then have b: "b \<in> set xs" using Cons.prems by auto
    from Cons.IH a b Cons.prems obtain i j where
      "indexOf xs a = Some i" "indexOf xs b = Some j" "i < j" by auto
    then show ?thesis using False \<open>b \<noteq> x\<close> by auto
  qed
qed

lemma years_sorted_distinct: "sorted (years data)" "distinct (years data)"
  by (simp_all add: years_def)

lemma years_ex_data: "years ex_data = [2000, 2005]"
  by (simp add: years_def nodes_of_ex_data List.map_filter_simps ex_fields)

text \<open>
  C8. On the sorted distinct years of the dataset the temporal scale is strictly
  monotonic: both years have an angle on the arc, and the smaller year has the smaller
  angle.
\<close>

theorem temporal_scale_strictly_monotonic:
  assumes "y1 \<in> set (years data)" and "y2 \<in> set (years data)" and "y1 < y2"
  shows "\<exists>a1 a2. angleScale data y1 = Some a1 \<and> angleScale data y2 = Some a2 \<and> a1 < a2"
proof -
  let ?d = "years data"
  from indexOf_mono [OF years_sorted_distinct assms] obtain i j where
    ij: "indexOf ?d y1 = Some i" "indexOf ?d y2 = Some j" "i < j" by blast
  have "card (set ?d) \<ge> card {y1, y2}"
    using assms by (intro card_mono) auto
  then have n: "2 \<le> length ?d"
    using assms(3) distinct_card [OF years_sorted_distinct(2)] by simp
  define step where "step = (arcEnd - arcStart) / real_of_int (max 1 (int (length ?d) - 1))"
  have "0 < arcEnd - arcStart" by (simp add: arcEnd_def arcStart_def)
  then have pos: "0 < step" using n by (simp add: step_def)
  define start where "start = arcStart + (arcEnd - arcStart - step * real_of_int (int (length ?d) - 1)) * (1 / 2)"
  have "angleScale data y1 = Some (start + step * real i)"
    "angleScale data y2 = Some (start + step * real j)"
    using ij
    by (simp_all add: angleScale_def scalePoint_def arcYears_def
        distinct_first_occurrences [OF years_sorted_distinct(2)] Let_def step_def start_def)
  moreover have "start + step * real i < start + step * real j"
    using pos ij(3) by simp
  ultimately show ?thesis by blast
qed

theorem temporal_scale_strictly_monotonic_witness:
  "(2000::int) \<in> set (years ex_data) \<and> 2005 \<in> set (years ex_data) \<and> (2000::int) < 2005 \<and>
   (\<exists>a1 a2. angleScale ex_data 2000 = Some a1 \<and> angleScale ex_data 2005 = Some a2 \<and> a1 < a2)"
proof -
  have h1: "(2000::int) \<in> set (years ex_data)" and h2: "(2005::int) \<in> set (years ex_data)"
    by (simp_all add: years_ex_data)
  have h3: "(2000::int) < 2005" by simp
  show ?thesis
    using temporal_scale_strictly_monotonic [OF h1 h2 h3] h1 h2 h3 by blast
qed

lemma floor_log10_99: "\<lfloor>log 10 (99::real)\<rfloor> = 1"
  by (simp add: floor_log_eq_powr_iff)

text \<open>
  C6. The band index is 0 when the total influence is absent or zero, and
  \<open>1 + \<lfloor>log\<^sub>1\<^sub>0 influence\<rfloor>\<close> for a positive influence; in particular the bands
  of 0, 1, 10, 99 and 100 are 0, 1, 2, 2 and 3.
\<close>

theorem getBandIdx_step_function:
  "getBandIdx (influenceScore (n\<lparr>totalInfluence := None\<rparr>)) = Some 0 \<and>
   getBandIdx 0 = Some 0 \<and>
   (0 < x \<longrightarrow> getBandIdx x = Some (1 + \<lfloor>log 10 x\<rfloor>)) \<and>
   getBandIdx 1 = Some 1 \<and> getBandIdx 10 = Some 2 \<and> getBandIdx 99 = Some 2 \<and>
   getBandIdx 100 = Some 3"
proof -
  have "\<lfloor>log 10 (100::real)\<rfloor> = 2"
    by (simp add: floor_log_eq_powr_iff)
  then show ?thesis
    by (simp add: getBandIdx_def influenceScore_def floor_log10_99)
qed

theorem getBandIdx_step_function_witness:
  "(0::real) < 5000 \<and> getBandIdx 5000 = Some (1 + \<lfloor>log 10 5000\<rfloor>) \<and> getBandIdx 5000 = Some 4"
proof -
  have "\<lfloor>log 10 (5000::real)\<rfloor> = 3"
    by (simp add: floor_log_eq_powr_iff)
  then show ?thesis
    using getBandIdx_step_function [of blank_node 5000] by simp
qed

section \<open>Claims about the per-year pie glyph\<close>

lemma pieEnabled_iff:
  assumes "influenceGenres st \<subseteq> set FLAT_GENRES"
  shows "pieEnabled st \<longleftrightarrow> influenceGenres st = set FLAT_GENRES"
proof
  assume "pieEnabled st"
  then have "card (influenceGenres st) = card (set FLAT_GENRES)"
    by (simp add: pieEnabled_def distinct_card [OF distinct_FLAT_GENRES])
  then show "influenceGenres st = set FLAT_GENRES"
    using assms by (simp add: card_subset_eq)
next
  assume "influenceGenres st = set FLAT_GENRES"
  then show "pieEnabled st"
    by (simp add: pieEnabled_def distinct_card [OF distinct_FLAT_GENRES])
qed

lemma citesInfluenceGenre_full:
  assumes "influenceGenres st = set FLAT_GENRES" and "citesInfluenceGenre data st n"
  shows "\<exists>ids i src g. influencedBy n = Some ids \<and> i \<in> set ids \<and> src \<in> set data \<and>
           nid src = i \<and> genre src = Some g \<and> g \<in> set FLAT_GENRES"
proof -
  from assms(2) obtain ids i where ids: "influencedBy n = Some ids" "i \<in> set ids"
    "i \<in> influenceGenreNodeIds data st"
    by (auto simp: citesInfluenceGenre_def list_ex_iff split: option.splits)
  then obtain src where "src \<in> set data" "nid src = i" "has_genre (influenceGenres st) (genre src)"
    by (auto simp: influenceGenreNodeIds_def)
  then show ?thesis
    using ids assms(1) by (auto simp: has_genre_def split: option.splits)
qed

lemma filteredNodes_subset: "set (filteredNodes data st) \<subseteq> set (influenceFiltered data st)"
  by (auto simp: filteredNodes_def Let_def split: option.splits if_splits)

lemma filteredNodes_ex_all_influence:
  "filteredNodes ex_data (handleInfluenceSelectAll initial_state) = [ex_work2]"
proof -
  let ?st = "handleInfluenceSelectAll initial_state"
  have st: "influenceGenres ?st = set FLAT_GENRES" "selectedGenres ?st = set FLAT_GENRES"
    "selectedLabelId ?st = None" "selectedArtistId ?st = None"
    by (simp_all add: handleInfluenceSelectAll_def initial_state_def FLAT_GENRES_def)
  have ids: "influenceGenreNodeIds ex_data ?st = {1, 4}"
    unfolding influenceGenreNodeIds_def st
    by (simp add: ex_data_def has_genre_def ex_fields)
      (auto simp: ex_defs FLAT_GENRES_def)
  have "influenceFiltered ex_data ?st = [ex_work2]"
    by (simp add: influenceFiltered_def st genreFiltered_ex_full citesInfluenceGenre_def ids
        ex_fields card_gt_0_iff)
      (simp add: FLAT_GENRES_def)
  then show ?thesis
    by (simp add: filteredNodes_def st truthy_def)
qed

text \<open>
  C7 (as amended). With an influence-genre selection inside the vocabulary, the pie
  block of the drawing runs exactly when the selection is the full vocabulary, and a pie
  is then drawn for every year of the arc that has a visible work. In that state the
  selection still filters: every visible work cites at least one influence source whose
  genre is in the vocabulary.
\<close>

theorem pie_glyph_switch:
  assumes "influenceGenres st \<subseteq> set FLAT_GENRES"
  shows "(pieEnabled st \<longleftrightarrow> influenceGenres st = set FLAT_GENRES) \<and>
    (pieYears data st \<noteq> [] \<longrightarrow> influenceGenres st = set FLAT_GENRES) \<and>
    (influenceGenres st = set FLAT_GENRES \<longrightarrow>
       pieYears data st = filter (\<lambda>y. yearData data st y \<noteq> []) (arcYears data) \<and>
       (\<forall>n \<in> set (filteredNodes data st).
          \<exists>ids i src g. influencedBy n = Some ids \<and> i \<in> set ids \<and> src \<in> set data \<and>
            nid src = i \<and> genre src = Some g \<and> g \<in> set FLAT_GENRES))"
proof -
  note iff = pieEnabled_iff [OF assms]
  have years: "pieYears data st \<noteq> [] \<longrightarrow> influenceGenres st = set FLAT_GENRES"
    using iff by (auto simp: pieYears_def)
  have pies: "pieYears data st = filter (\<lambda>y. yearData data st y \<noteq> []) (arcYears data)"
    if "influenceGenres st = set FLAT_GENRES"
    using that iff by (simp add: pieYears_def)
  have cites: "\<exists>ids i src g. influencedBy n = Some ids \<and> i \<in> set ids \<and> src \<in> set data \<and>
            nid src = i \<and> genre src = Some g \<and> g \<in> set FLAT_GENRES"
    if full: "influenceGenres st = set FLAT_GENRES" and n: "n \<in> set (filteredNodes data st)" for n
  proof -
    have "0 < card (influenceGenres st)"
      using full by (simp add: card_gt_0_iff FLAT_GENRES_def)
    then have "n \<in> set (filter (citesInfluenceGenre data st) (genreFiltered data st))"
      using n filteredNodes_subset [of data st] by (auto simp: influenceFiltered_def)
    then show ?thesis
      using citesInfluenceGenre_full [OF full] by simp
  qed
  show ?thesis
    using iff years pies cites by blast
qed

theorem pie_glyph_switch_witness:
  "influenceGenres (handleInfluenceSelectAll initial_state) = set FLAT_GENRES \<and>
   pieEnabled (handleInfluenceSelectAll initial_state) \<and>
   pieYears ex_data (handleInfluenceSelectAll initial_state) = [2005] \<and>
   filteredNodes ex_data (handleInfluenceSelectAll initial_state) = [ex_work2] \<and>
   influencedBy ex_work2 = Some [1] \<and> nid ex_work1 = 1 \<and> genre ex_work1 = Some ''Americana''"
proof -
  let ?st = "handleInfluenceSelectAll initial_state"
  have full: "influenceGenres ?st = set FLAT_GENRES"
    by (simp add: handleInfluenceSelectAll_def initial_state_def FLAT_GENRES_def)
  then have sub: "influenceGenres ?st \<subseteq> set FLAT_GENRES" by simp
  note T = pie_glyph_switch [OF sub, of ex_data]
  from T full have en: "pieEnabled ?st" by blast
  from T full have "pieYears ex_data ?st = filter (\<lambda>y. yearData ex_data ?st y \<noteq> []) (arcYears ex_data)"
    by blast
  then have "pieYears ex_data ?st = [2005]"
    by (simp add: yearData_def filteredNodes_ex_all_influence arcYears_def years_ex_data ex_fields)
  then show ?thesis
    using full en filteredNodes_ex_all_influence by (simp add: ex_fields)
qed

text \<open>
  C7 as stated fails: selecting all influence genres (one click on ``select all'') turns
  the pies on and at the same time hides the work that cites no influence source.
\<close>

theorem pie_selection_filters_counterexample:
  "reachable ex_data (handleInfluenceSelectAll initial_state) \<and>
   influenceGenres (handleInfluenceSelectAll initial_state) = set FLAT_GENRES \<and>
   pieEnabled (handleInfluenceSelectAll initial_state) \<and>
   filteredNodes ex_data (handleInfluenceSelectAll initial_state) = [ex_work2] \<and>
   filteredNodes ex_data ((handleInfluenceSelectAll initial_state)\<lparr>influenceGenres := {}\<rparr>) =
     [ex_work1, ex_work2]"
proof -
  let ?st = "handleInfluenceSelectAll initial_state"
  have full: "influenceGenres ?st = set FLAT_GENRES"
    by (simp add: handleInfluenceSelectAll_def initial_state_def FLAT_GENRES_def)
  have en: "pieEnabled ?st"
    by (simp add: pieEnabled_def full distinct_card [OF distinct_FLAT_GENRES])
  have r: "reachable ex_data ?st"
    by (intro r_influence_all r_init)
  have "?st\<lparr>influenceGenres := {}\<rparr> = initial_state"
    by (simp add: handleInfluenceSelectAll_def initial_state_def FLAT_GENRES_def)
  then show ?thesis
    using full en r filteredNodes_ex_all_influence filteredNodes_ex_initial by simp
qed

section \<open>Claims about the influence ribbon\<close>

subsection \<open>The known cumulative values grow along the years\<close>





subsection \<open>The search for the next known year\<close>





subsection \<open>Interpolated values\<close>





subsection \<open>The main loop\<close>
















lemma sc_nodeById:
  "nodeById sc_data 1 = Some (sc_work 1 2000)" "nodeById sc_data 2 = Some (sc_work 2 2005)"
  "nodeById sc_data 3 = Some (sc_work 3 2010)"
  by (simp_all add: nodeById_def sc_data_def sc_work_def sc_contributor_def blank_node_def)

lemma sc_years: "yearsContributed sc_data sc_contributor = Some [2000, 2005, 2010]"
proof -
  have "contributedYears sc_data sc_contributor = [Some 2000, Some 2005, Some 2010]"
    by (simp add: contributedYears_def sc_nodeById arrayOrEmpty_def sc_contributor_def
        blank_node_def)
      (simp add: sc_work_def)
  then show ?thesis
    by (simp add: yearsContributed_def)
qed

lemma sc_sequence:
  "influenceByYear (arrayOrEmpty (influence sc_contributor)) [2000, 2005, 2010] = [5, 5, 5]"
  by (simp add: influenceByYear_def cleanInfluenceArray_def unknownInfluence_def yearsList_def
      interpolated_def score_or0_def sc_contributor_def blank_node_def arrayOrEmpty_def)

text \<open>
  C4 (as amended). In the scenario of three works of the years 2000, 2005 and 2010 by
  one contributor with a single influence event of magnitude 5 in 2005, the contributed
  years are [2000, 2005, 2010] and the cumulative-influence sequence is [5, 5, 5]: the
  year before the first known year takes the next known value.
\<close>

theorem scenario_cumulative_sequence:
  "yearsContributed sc_data sc_contributor = Some [2000, 2005, 2010] \<and>
   influenceByYear (arrayOrEmpty (influence sc_contributor)) [2000, 2005, 2010] = [5, 5, 5]"
  using sc_years sc_sequence by simp

text \<open>C4 as stated fails: the sequence of the scenario is not [0, 5, 5].\<close>

theorem scenario_cumulative_sequence_counterexample:
  "yearsContributed sc_data sc_contributor = Some [2000, 2005, 2010] \<and>
   influenceByYear (arrayOrEmpty (influence sc_contributor)) [2000, 2005, 2010] \<noteq> [0, 5, 5]"
  using sc_years sc_sequence by simp

subsection \<open>The outline and its guards\<close>

lemma length_fillInfluence: "length (fillInfluence cbk ys i li lv ni nv) = length ys"
  by (induction ys arbitrary: i li lv ni nv) (auto split: option.splits prod.splits)

lemma length_influenceByYear:
  "length (influenceByYear infl yrs) = length (yearsList (cleanInfluenceArray infl yrs) yrs)"
  by (simp add: influenceByYear_def Let_def length_fillInfluence)
















lemma rib_nodeById:
  "nodeById rib_data 1 = Some (sc_work 1 2000)" "nodeById rib_data 2 = Some (sc_work 2 2005)"
  "nodeById rib_data 3 = Some (sc_work 3 2010)" "nodeById rib_data 4 = Some rib_undated_work"
  "nodeById rib_data 5 = Some (sc_work 5 2000)" "nodeById rib_data 99 = None"
  by (simp_all add: nodeById_def rib_data_def sc_work_def sc_contributor_def blank_node_def
      rib_undated_work_def rib_undated_contributor_def rib_same_year_contributor_def
      rib_one_year_contributor_def rib_one_work_contributor_def)

lemma rib_contributedYears:
  "contributedYears rib_data sc_contributor = [Some 2000, Some 2005, Some 2010]"
  "contributedYears rib_data rib_undated_contributor = [Some 2000, None]"
  "contributedYears rib_data rib_same_year_contributor = [Some 2000, Some 2000]"
  "contributedYears rib_data rib_one_year_contributor = [Some 2000, Some 2000]"
  "contributedYears rib_data rib_one_work_contributor = [Some 2000]"
  by (simp_all add: contributedYears_def rib_nodeById arrayOrEmpty_def sc_contributor_def
      rib_undated_contributor_def rib_same_year_contributor_def rib_one_year_contributor_def
      rib_one_work_contributor_def blank_node_def)
    (simp_all add: sc_work_def rib_undated_work_def blank_node_def)

lemma rib_influence:
  "arrayOrEmpty (influence sc_contributor) = [\<lparr> inf_year = Some 2005, inf_score = Some 5 \<rparr>]"
  "arrayOrEmpty (influence rib_undated_contributor) = []"
  "arrayOrEmpty (influence rib_same_year_contributor) =
     [\<lparr> inf_year = Some 2005, inf_score = Some 5 \<rparr>]"
  "arrayOrEmpty (influence rib_one_year_contributor) = []"
  "arrayOrEmpty (influence rib_one_work_contributor) = []"
  by (simp_all add: arrayOrEmpty_def sc_contributor_def rib_undated_contributor_def
      rib_same_year_contributor_def rib_one_year_contributor_def rib_one_work_contributor_def
      blank_node_def)


lemma rib_numbersThenNaN:
  "numbersThenNaN [Some 2000, Some 2005, Some 2010] = [Some 2000, Some 2005, Some 2010]"
  "numbersThenNaN [Some 2000, None] = [Some 2000, None]"
  "numbersThenNaN [Some 2000, Some 2000] = [Some 2000, Some 2000]"
  "numbersThenNaN [Some 2000, Some 2005] = [Some 2000, Some 2005]"
  "numbersThenNaN [Some 2000] = [Some 2000]"
  by (simp_all add: numbersThenNaN_def List.map_filter_def)


lemma rib_undated_values:
  "influenceByYearNaN numbersThenNaN (arrayOrEmpty (influence rib_undated_contributor))
     (yearsContributedNaN numbersThenNaN rib_data rib_undated_contributor) = [0, 0]"
  unfolding rib_influence yearsContributedNaN_def rib_contributedYears rib_numbersThenNaN
  by (simp add: influenceByYearNaN_def cleanInfluenceArrayNaN_def unknownInfluence_def
      yearsListNaN_def rib_numbersThenNaN interpolated_def score_or0_def)

text \<open>
  On a contributor whose works are all dated, the computation on year keys is the one
  on years.
\<close>

lemma numbersThenNaN_numbers: "numbersThenNaN (map Some xs) = map Some (sort xs)"
proof -
  have "List.map_filter id (map Some xs) = xs"
    by (induction xs) simp_all
  then show ?thesis
    by (simp add: numbersThenNaN_def)
qed

lemma cleanInfluenceArrayNaN_dated:
  "cleanInfluenceArrayNaN infl (map Some yrs) = cleanInfluenceArray infl yrs"
  by (simp add: cleanInfluenceArrayNaN_def cleanInfluenceArray_def o_def)

lemma map_inf_year_clean:
  "map inf_year (cleanInfluenceArray infl yrs) =
     map Some (List.map_filter inf_year (cleanInfluenceArray infl yrs))"
proof -
  have "map inf_year es = map Some (List.map_filter inf_year es)"
    if "\<forall>e\<in>set es. inf_year e \<noteq> None" for es :: "influence_event list"
    using that by (induction es) auto
  moreover have "\<forall>e\<in>set (cleanInfluenceArray infl yrs). inf_year e \<noteq> None"
    by (auto simp: cleanInfluenceArray_def)
  ultimately show ?thesis
    by blast
qed

lemma remdups_map_Some: "remdups (map Some xs) = map Some (remdups xs)"
  by (induction xs) auto

lemma yearsListNaN_dated:
  assumes "\<And>xs. srt (map Some xs) = map Some (sort xs)"
  shows "yearsListNaN srt (cleanInfluenceArray infl yrs) (map Some yrs) =
           map Some (yearsList (cleanInfluenceArray infl yrs) yrs)"
proof -
  define zs where "zs = yrs @ List.map_filter inf_year (cleanInfluenceArray infl yrs)"
  have "map Some yrs @ map inf_year (cleanInfluenceArray infl yrs) = map Some zs"
    by (simp add: zs_def map_inf_year_clean [symmetric])
  then have "yearsListNaN srt (cleanInfluenceArray infl yrs) (map Some yrs) =
      srt (map Some (rev (remdups (rev zs))))"
    by (simp add: yearsListNaN_def rev_map remdups_map_Some)
  also have "\<dots> = map Some (sort (rev (remdups (rev zs))))"
    by (rule assms)
  also have "sort (rev (remdups (rev zs))) = sort (remdups zs)"
    by (intro sorted_distinct_set_unique) simp_all
  finally show ?thesis
    by (simp add: yearsList_def zs_def)
qed

lemma cumulativeByKnownKey_dated:
  "(\<And>y. m' (Some y) = m y) \<Longrightarrow>
     cumulativeByKnownKey clean (map Some yl) r m' (Some y) = cumulativeByKnownYear clean yl r m y"
proof (induction yl arbitrary: r m m')
  case Nil
  then show ?case by simp
next
  case (Cons a yl)
  show ?case
    unfolding list.map cumulativeByKnownKey.simps cumulativeByKnownYear.simps Let_def
    by (auto intro!: Cons.IH simp: Cons.prems)
qed

lemma findNextKnown_dated:
  "(\<And>y. cbk' (Some y) = cbk y) \<Longrightarrow>
     findNextKnown cbk' (map Some ys) j nv = findNextKnown cbk ys j nv"
  by (induction ys arbitrary: j) (simp_all split: option.splits)

lemma fillInfluence_dated:
  "(\<And>y. cbk' (Some y) = cbk y) \<Longrightarrow>
     fillInfluence cbk' (map Some ys) i li lv ni nv = fillInfluence cbk ys i li lv ni nv"
proof (induction ys arbitrary: i li lv ni nv)
  case Nil
  then show ?case by simp
next
  case (Cons a ys)
  show ?case
    unfolding list.map fillInfluence.simps Cons.prems
      findNextKnown_dated [of cbk' cbk, OF Cons.prems] Cons.IH [OF Cons.prems]
    by (rule refl)
qed

lemma influenceByYearNaN_dated:
  assumes "\<And>xs. srt (map Some xs) = map Some (sort xs)"
  shows "influenceByYearNaN srt infl (map Some yrs) = influenceByYear infl yrs"
  unfolding influenceByYearNaN_def influenceByYear_def Let_def cleanInfluenceArrayNaN_dated
    yearsListNaN_dated [of srt, OF assms]
  by (rule fillInfluence_dated) (rule cumulativeByKnownKey_dated, simp)





section \<open>Claims about the view-fit transform\<close>































end
